theory Spec2Isabelle
  imports Complex_Main "HOL-Library.Product_Lexorder"
begin

section \<open>MathCrew: persistence layer (db.py)\<close>

text \<open>
  The SQLite database of \<^verbatim>\<open>db.py\<close> is a record of its four tables. A table is the list
  of its rows in insertion order. The \<^verbatim>\<open>AUTOINCREMENT\<close> counters of \<^verbatim>\<open>history\<close> and
  \<^verbatim>\<open>problem_bank\<close> are kept beside the tables, as SQLite keeps them in
  \<^verbatim>\<open>sqlite_sequence\<close>. The timestamp columns (\<^verbatim>\<open>created_at\<close>, \<^verbatim>\<open>updated_at\<close>,
  \<^verbatim>\<open>unlocked_at\<close>) are left out: no function modelled here reads them.
  Python's unbounded integers are \<^typ>\<open>int\<close>; a nullable column is an \<^typ>\<open>'a option\<close>.
\<close>

datatype py_error =
    ValueError
  | TypeError
  | OverflowError
  | IntegrityError
  | AgentError string

record student_row =
  s_id :: int
  s_name :: string
  s_pin :: string
  s_grade :: int
  s_curriculum_style :: string

record history_row =
  h_id :: int
  h_student_id :: int
  h_question :: string
  h_correct_answer :: "string option"
  h_student_answer :: "string option"
  h_is_correct :: int
  h_topic :: "string option"
  h_requested_topic :: "string option"
  h_feedback :: "string option"
  h_weakness :: "string option"
  h_misconception_type :: "string option"
  h_misconception_detail :: "string option"
  h_scaffold_level :: int
  h_scaffold_parent_id :: "int option"

record bank_row =
  b_id :: int
  b_grade :: int
  b_curriculum_style :: string
  b_topic :: string
  b_question :: string
  b_correct_answer :: string
  b_hint :: string
  b_is_scaffold :: int
  b_scaffold_misconception_type :: "string option"
  b_times_served :: int

record database =
  students :: "student_row list"
  history :: "history_row list"
  history_seq :: int
  achievements :: "(int \<times> string) list"
  problem_bank :: "bank_row list"
  bank_seq :: int

text \<open>\<^verbatim>\<open>ORDER BY id\<close>, \<^verbatim>\<open>ORDER BY id DESC LIMIT n\<close> (a negative \<^verbatim>\<open>LIMIT\<close> is no limit
  in SQLite), and the row id an \<^verbatim>\<open>AUTOINCREMENT\<close> insert assigns: one more than the
  largest id the table ever held.\<close>

definition history_of :: "database \<Rightarrow> int \<Rightarrow> history_row list" where
  "history_of db student_id =
     sort_key h_id (filter (\<lambda>r. h_student_id r = student_id) (history db))"

definition sql_limit :: "int \<Rightarrow> 'a list \<Rightarrow> 'a list" where
  "sql_limit n rows = (if n < 0 then rows else take (nat n) rows)"

definition next_rowid :: "int \<Rightarrow> int list \<Rightarrow> int" where
  "next_rowid seqv ids = foldr max ids (max seqv 0) + 1"

definition student_exists :: "database \<Rightarrow> int \<Rightarrow> bool" where
  "student_exists db student_id = (student_id \<in> set (map s_id (students db)))"

subsection \<open>History\<close>

text \<open>\<^verbatim>\<open>save_result\<close>: the insert fails with \<^verbatim>\<open>IntegrityError\<close> when the foreign key
  \<^verbatim>\<open>student_id\<close> names no student (\<^verbatim>\<open>PRAGMA foreign_keys = ON\<close>). The arguments
  \<^verbatim>\<open>correct_answer\<close> and \<^verbatim>\<open>student_answer\<close> are passed already rendered by \<^verbatim>\<open>str\<close>,
  and \<^verbatim>\<open>is_correct\<close> is stored as 1 or 0.\<close>

definition save_result ::
  "database \<Rightarrow> int \<Rightarrow> string \<Rightarrow> string \<Rightarrow> string \<Rightarrow> bool \<Rightarrow> string option \<Rightarrow> string option
     \<Rightarrow> string option \<Rightarrow> string option \<Rightarrow> string option \<Rightarrow> string option \<Rightarrow> int \<Rightarrow> int option
     \<Rightarrow> py_error + database" where
  "save_result db student_id question correct_answer student_answer is_correct
       topic requested_topic feedback weakness misconception_type misconception_detail
       scaffold_level scaffold_parent_id =
     (if \<not> student_exists db student_id then Inl IntegrityError
      else
        let new_id = next_rowid (history_seq db) (map h_id (history db));
            row = \<lparr> h_id = new_id, h_student_id = student_id, h_question = question,
                    h_correct_answer = Some correct_answer,
                    h_student_answer = Some student_answer,
                    h_is_correct = (if is_correct then 1 else 0),
                    h_topic = topic, h_requested_topic = requested_topic,
                    h_feedback = feedback, h_weakness = weakness,
                    h_misconception_type = misconception_type,
                    h_misconception_detail = misconception_detail,
                    h_scaffold_level = scaffold_level,
                    h_scaffold_parent_id = scaffold_parent_id \<rparr>
        in Inr (db\<lparr> history := history db @ [row], history_seq := new_id \<rparr>))"

subsection \<open>Gamification\<close>

text \<open>Python's \<^verbatim>\<open>int(x)\<close> on a float truncates toward zero. The floating-point
  expressions of \<^verbatim>\<open>_level_from_xp\<close> and \<^verbatim>\<open>get_gamification_stats\<close> are read over the
  real numbers; \<^verbatim>\<open>math.sqrt\<close> raises \<^verbatim>\<open>ValueError\<close> on a negative argument.\<close>

definition py_int :: "real \<Rightarrow> int" where
  "py_int x = (if 0 \<le> x then \<lfloor>x\<rfloor> else \<lceil>x\<rceil>)"

definition level_from_xp :: "int \<Rightarrow> py_error + int" where
  "level_from_xp xp =
     (if xp < 0 then Inl ValueError
      else Inr (min (py_int (0.4 * sqrt (real_of_int xp)) + 1) 50))"

definition LEVEL_TITLES :: "(int \<times> string) list" where
  "LEVEL_TITLES =
     [(1, ''Beginner''), (2, ''Learner''), (3, ''Explorer''), (4, ''Thinker''),
      (5, ''Star''), (6, ''Problem Pro''), (7, ''Math Hero''), (8, ''Number Ninja''),
      (9, ''Super Brain''), (10, ''Genius''), (11, ''Mastermind''), (12, ''Legend'')]"

definition level_title :: "int \<Rightarrow> string" where
  "level_title level =
     (case map_of LEVEL_TITLES level of Some t \<Rightarrow> t | None \<Rightarrow> ''Math Wizard'')"

record gam_acc =
  acc_xp :: int
  acc_streak :: int
  acc_best_streak :: int

definition gam_init :: gam_acc where
  "gam_init = \<lparr> acc_xp = 0, acc_streak = 0, acc_best_streak = 0 \<rparr>"

text \<open>One iteration of the loop over the rows of \<^verbatim>\<open>get_gamification_stats\<close>.\<close>

definition gam_step :: "gam_acc \<Rightarrow> history_row \<Rightarrow> gam_acc" where
  "gam_step a r =
     (if h_is_correct r \<noteq> 0 then
        let xp1 = (if h_scaffold_level r \<noteq> 0 \<and> h_scaffold_level r > 0
                   then acc_xp a + 8 else acc_xp a + 10);
            streak1 = acc_streak a + 1;
            best1 = (if streak1 > acc_best_streak a then streak1 else acc_best_streak a);
            xp2 = (if streak1 = 3 then xp1 + 3
                   else if streak1 = 5 then xp1 + 5
                   else if streak1 = 10 then xp1 + 10
                   else if streak1 = 20 then xp1 + 20
                   else xp1)
        in \<lparr> acc_xp = xp2, acc_streak = streak1, acc_best_streak = best1 \<rparr>
      else \<lparr> acc_xp = acc_xp a + 2, acc_streak = 0, acc_best_streak = acc_best_streak a \<rparr>)"

definition gam_loop :: "history_row list \<Rightarrow> gam_acc" where
  "gam_loop rows = foldl gam_step gam_init rows"

record gam_stats =
  g_xp :: int
  g_level :: int
  g_level_title :: string
  g_xp_for_next :: int
  g_xp_progress_pct :: int
  g_streak :: int
  g_best_streak :: int

definition get_gamification_stats :: "database \<Rightarrow> int \<Rightarrow> py_error + gam_stats" where
  "get_gamification_stats db student_id =
     (let a = gam_loop (history_of db student_id);
          xp = acc_xp a
      in case level_from_xp xp of
           Inl e \<Rightarrow> Inl e
         | Inr level \<Rightarrow>
             let next_level = level + 1;
                 xp_for_current = (if level > 1 then ((real_of_int level - 1) / 0.4)\<^sup>2 else 0);
                 xp_for_next = ((real_of_int next_level - 1) / 0.4)\<^sup>2;
                 xp_in_level = real_of_int xp - xp_for_current;
                 xp_needed = xp_for_next - xp_for_current;
                 pct = (if xp_needed > 0 then py_int (xp_in_level / xp_needed * 100) else 0)
             in Inr \<lparr> g_xp = xp, g_level = level, g_level_title = level_title level,
                      g_xp_for_next = py_int xp_for_next,
                      g_xp_progress_pct = max 0 (min 100 pct),
                      g_streak = acc_streak a, g_best_streak = acc_best_streak a \<rparr>)"


subsection \<open>Problem bank\<close>

text \<open>\<^verbatim>\<open>save_to_problem_bank\<close> returns the new row's id. \<^verbatim>\<open>correct_answer\<close> is passed
  already rendered by \<^verbatim>\<open>str\<close>; \<^verbatim>\<open>times_served\<close> takes the column default 0.\<close>

definition save_to_problem_bank ::
  "database \<Rightarrow> int \<Rightarrow> string \<Rightarrow> string \<Rightarrow> string \<Rightarrow> string \<Rightarrow> string \<Rightarrow> bool \<Rightarrow> string option
     \<Rightarrow> database \<times> int" where
  "save_to_problem_bank db grade curriculum_style topic question correct_answer hint
       is_scaffold scaffold_misconception_type =
     (let bank_id = next_rowid (bank_seq db) (map b_id (problem_bank db));
          row = \<lparr> b_id = bank_id, b_grade = grade, b_curriculum_style = curriculum_style,
                  b_topic = topic, b_question = question, b_correct_answer = correct_answer,
                  b_hint = hint, b_is_scaffold = (if is_scaffold then 1 else 0),
                  b_scaffold_misconception_type = scaffold_misconception_type,
                  b_times_served = 0 \<rparr>
      in (db\<lparr> problem_bank := problem_bank db @ [row], bank_seq := bank_id \<rparr>, bank_id))"

text \<open>The questions of the student's last \<^verbatim>\<open>exclude_recent\<close> history rows.\<close>

definition seen_questions :: "database \<Rightarrow> int \<Rightarrow> int \<Rightarrow> string set" where
  "seen_questions db student_id exclude_recent =
     set (map h_question (sql_limit exclude_recent (rev (history_of db student_id))))"

text \<open>Truth value of an optional string in a Python condition: \<^verbatim>\<open>None\<close> and the empty
  string are false.\<close>

definition truthy_str :: "string option \<Rightarrow> bool" where
  "truthy_str s = (s \<noteq> None \<and> s \<noteq> Some [])"

text \<open>The \<^verbatim>\<open>WHERE\<close> clauses of the two queries of \<^verbatim>\<open>find_reusable_problem\<close>: the
  first one is taken when \<^verbatim>\<open>is_scaffold and scaffold_misconception_type\<close> holds.\<close>

definition bank_matches ::
  "int \<Rightarrow> string \<Rightarrow> string \<Rightarrow> bool \<Rightarrow> string option \<Rightarrow> bank_row \<Rightarrow> bool" where
  "bank_matches grade curriculum_style topic is_scaffold scaffold_misconception_type r =
     (if is_scaffold \<and> truthy_str scaffold_misconception_type
      then b_grade r = grade \<and> b_curriculum_style r = curriculum_style \<and> b_topic r = topic
           \<and> b_is_scaffold r = 1
           \<and> b_scaffold_misconception_type r = scaffold_misconception_type
      else b_grade r = grade \<and> b_curriculum_style r = curriculum_style \<and> b_topic r = topic
           \<and> b_is_scaffold r = (if is_scaffold then 1 else 0))"

text \<open>\<^verbatim>\<open>ORDER BY times_served ASC, RANDOM()\<close>: the argument \<open>rnd\<close> gives, for each row id,
  the number \<^verbatim>\<open>RANDOM()\<close> drew for that row in this query. Rows that agree on both keys keep
  their table order.\<close>

definition bank_order :: "(int \<Rightarrow> int) \<Rightarrow> bank_row list \<Rightarrow> bank_row list" where
  "bank_order rnd rows = sort_key (\<lambda>r. (b_times_served r, rnd (b_id r))) rows"

definition find_reusable_problem ::
  "(int \<Rightarrow> int) \<Rightarrow> database \<Rightarrow> int \<Rightarrow> string \<Rightarrow> string \<Rightarrow> int \<Rightarrow> bool \<Rightarrow> string option \<Rightarrow> int
     \<Rightarrow> bank_row option" where
  "find_reusable_problem rnd db grade curriculum_style topic student_id
       is_scaffold scaffold_misconception_type exclude_recent =
     (let seen = seen_questions db student_id exclude_recent;
          rows = bank_order rnd
                   (filter (bank_matches grade curriculum_style topic is_scaffold
                              scaffold_misconception_type) (problem_bank db))
      in find (\<lambda>r. b_question r \<notin> seen) rows)"

definition increment_times_served :: "database \<Rightarrow> int \<Rightarrow> database" where
  "increment_times_served db bank_id =
     db\<lparr> problem_bank :=
           map (\<lambda>r. if b_id r = bank_id then r\<lparr> b_times_served := b_times_served r + 1 \<rparr>
                     else r) (problem_bank db) \<rparr>"

subsection \<open>Achievements\<close>

text \<open>The keys of \<^verbatim>\<open>ACHIEVEMENTS\<close> with their display names, in the order of the source.\<close>

definition ACHIEVEMENTS :: "(string \<times> string) list" where
  "ACHIEVEMENTS =
     [(''first_correct'', ''First Star''), (''ten_correct'', ''Perfect Ten''),
      (''fifty_correct'', ''Half Century''), (''hundred_correct'', ''Century Club''),
      (''streak_3'', ''Hat Trick''), (''streak_5'', ''High Five''),
      (''streak_10'', ''On Fire''), (''try_3_topics'', ''Explorer''),
      (''try_5_topics'', ''Adventurer''), (''ten_problems'', ''Getting Started''),
      (''fifty_problems'', ''Determined''), (''scaffold_win'', ''Comeback Kid''),
      (''scaffold_master'', ''Never Give Up''), (''perfect_session_5'', ''Flawless''),
      (''level_5'', ''Rising Star'')]"

text \<open>\<^verbatim>\<open>unlock_achievement\<close>: the insert raises when the pair is already in the table
  (\<^verbatim>\<open>UNIQUE(student_id, achievement_key)\<close>) or the student does not exist (foreign key);
  every exception is turned into the result \<^verbatim>\<open>False\<close>.\<close>

definition unlock_achievement :: "database \<Rightarrow> int \<Rightarrow> string \<Rightarrow> database \<times> bool" where
  "unlock_achievement db student_id key =
     (if \<not> student_exists db student_id \<or> (student_id, key) \<in> set (achievements db)
      then (db, False)
      else (db\<lparr> achievements := achievements db @ [(student_id, key)] \<rparr>, True))"

text \<open>The loop of \<^verbatim>\<open>check_achievements\<close> over \<^verbatim>\<open>checks.items()\<close>.\<close>

fun unlock_loop ::
  "database \<Rightarrow> int \<Rightarrow> (string \<times> bool) list \<Rightarrow> string list \<Rightarrow> database \<times> string list" where
  "unlock_loop db student_id [] newly_unlocked = (db, newly_unlocked)"
| "unlock_loop db student_id ((key, condition) # rest) newly_unlocked =
     (if condition \<and> key \<in> set (map fst ACHIEVEMENTS) then
        (case unlock_achievement db student_id key of
           (db', unlocked) \<Rightarrow>
             unlock_loop db' student_id rest
               (if unlocked then newly_unlocked @ [key] else newly_unlocked))
      else unlock_loop db student_id rest newly_unlocked)"

definition achievement_checks :: "database \<Rightarrow> int \<Rightarrow> gam_stats \<Rightarrow> (string \<times> bool) list" where
  "achievement_checks db student_id stats =
     (let mine = filter (\<lambda>r. h_student_id r = student_id) (history db);
          correct = int (length (filter (\<lambda>r. h_is_correct r = 1) mine));
          total = int (length mine);
          topics = int (length (remdups (filter (\<lambda>t. t \<noteq> None) (map h_topic mine))));
          scaffold_wins =
            int (length (filter (\<lambda>r. h_is_correct r = 1 \<and> h_scaffold_level r > 0) mine))
      in [(''first_correct'', correct \<ge> 1),
          (''ten_correct'', correct \<ge> 10),
          (''fifty_correct'', correct \<ge> 50),
          (''hundred_correct'', correct \<ge> 100),
          (''streak_3'', g_best_streak stats \<ge> 3),
          (''streak_5'', g_best_streak stats \<ge> 5),
          (''streak_10'', g_best_streak stats \<ge> 10),
          (''try_3_topics'', topics \<ge> 3),
          (''try_5_topics'', topics \<ge> 5),
          (''ten_problems'', total \<ge> 10),
          (''fifty_problems'', total \<ge> 50),
          (''scaffold_win'', scaffold_wins \<ge> 1),
          (''scaffold_master'', scaffold_wins \<ge> 5),
          (''perfect_session_5'', g_best_streak stats \<ge> 5),
          (''level_5'', g_level stats \<ge> 5)])"

definition check_achievements :: "database \<Rightarrow> int \<Rightarrow> py_error + database \<times> string list" where
  "check_achievements db student_id =
     (case get_gamification_stats db student_id of
        Inl e \<Rightarrow> Inl e
      | Inr stats \<Rightarrow>
          Inr (unlock_loop db student_id (achievement_checks db student_id stats) []))"

subsection \<open>Sample data\<close>

text \<open>A history row with the given id, student, correctness flag and scaffold level, and
  a database holding one student (id 1) and the given history.\<close>

definition sample_row :: "int \<Rightarrow> int \<Rightarrow> int \<Rightarrow> int \<Rightarrow> history_row" where
  "sample_row i student_id correct level =
     \<lparr> h_id = i, h_student_id = student_id, h_question = ''2+2'',
       h_correct_answer = Some ''4'', h_student_answer = Some ''4'',
       h_is_correct = correct, h_topic = Some ''Addition'', h_requested_topic = None,
       h_feedback = None, h_weakness = None, h_misconception_type = None,
       h_misconception_detail = None, h_scaffold_level = level,
       h_scaffold_parent_id = None \<rparr>"

definition sample_student :: student_row where
  "sample_student = \<lparr> s_id = 1, s_name = ''Alex'', s_pin = ''$2b$'', s_grade = 4,
                       s_curriculum_style = ''common_core'' \<rparr>"

definition sample_db :: "history_row list \<Rightarrow> database" where
  "sample_db rows =
     \<lparr> students = [sample_student], history = rows, history_seq = int (length rows),
       achievements = [], problem_bank = [], bank_seq = 0 \<rparr>"

subsection \<open>Sample bank data\<close>

definition sample_bank_row :: "int \<Rightarrow> string \<Rightarrow> int \<Rightarrow> bank_row" where
  "sample_bank_row i question served =
     \<lparr> b_id = i, b_grade = 4, b_curriculum_style = ''common_core'', b_topic = ''Addition'',
       b_question = question, b_correct_answer = ''5'', b_hint = ''Count on'',
       b_is_scaffold = 0, b_scaffold_misconception_type = None, b_times_served = served \<rparr>"

definition sample_bank_db :: "history_row list \<Rightarrow> bank_row list \<Rightarrow> database" where
  "sample_bank_db rows bank =
     \<lparr> students = [sample_student], history = rows, history_seq = int (length rows),
       achievements = [], problem_bank = bank, bank_seq = int (length bank) \<rparr>"

section \<open>Verified properties\<close>

subsection \<open>Level curve\<close>

lemma py_int_nonneg: "0 \<le> x \<Longrightarrow> py_int x = \<lfloor>x\<rfloor>"
  by (simp add: py_int_def)

text \<open>The floor of \<open>0.4 * sqrt xp\<close> in integer terms: it is the \<open>k\<close> with
  \<open>25 k\<^sup>2 \<le> 4 xp < 25 (k + 1)\<^sup>2\<close>.\<close>

lemma level_arg_floor:
  assumes "0 \<le> xp" "0 \<le> k" "25 * k\<^sup>2 \<le> 4 * xp" "4 * xp < 25 * (k + 1)\<^sup>2"
  shows "\<lfloor>0.4 * sqrt (real_of_int xp)\<rfloor> = k"
proof (rule floor_unique)
  have lo: "(5 * real_of_int k / 2)\<^sup>2 \<le> real_of_int xp"
  proof -
    have "real_of_int (25 * k\<^sup>2) \<le> real_of_int (4 * xp)"
      using assms(3) by (simp only: of_int_le_iff)
    then show ?thesis by (simp add: power2_eq_square field_simps)
  qed
  have "5 * real_of_int k / 2 \<le> sqrt (real_of_int xp)"
    by (rule real_le_rsqrt) (rule lo)
  then show "real_of_int k \<le> 0.4 * sqrt (real_of_int xp)" by simp
  have hi: "real_of_int xp < (5 * (real_of_int k + 1) / 2)\<^sup>2"
  proof -
    have "real_of_int (4 * xp) < real_of_int (25 * (k + 1)\<^sup>2)"
      using assms(4) by (simp only: of_int_less_iff)
    then show ?thesis by (simp add: power2_eq_square field_simps)
  qed
  have "sqrt (real_of_int xp) < 5 * (real_of_int k + 1) / 2"
    by (rule real_less_lsqrt) (use assms hi in auto)
  then show "0.4 * sqrt (real_of_int xp) < real_of_int k + 1" by simp
qed

lemma level_from_xp_eq:
  assumes "0 \<le> xp" "0 \<le> k" "25 * k\<^sup>2 \<le> 4 * xp" "4 * xp < 25 * (k + 1)\<^sup>2"
  shows "level_from_xp xp = Inr (min (k + 1) 50)"
  using assms level_arg_floor[OF assms] by (simp add: level_from_xp_def py_int_nonneg)

lemma level_from_xp_0: "level_from_xp 0 = Inr 1"
  using level_from_xp_eq[of 0 0] by simp

lemma level_from_xp_58: "level_from_xp 58 = Inr 4"
  using level_from_xp_eq[of 58 3] by simp

lemma level_from_xp_20000: "level_from_xp 20000 = Inr 50"
  using level_from_xp_eq[of 20000 56] by simp

text \<open>
  \<^bold>\<open>C8.\<close> On non-negative XP the level function returns a level (it does not raise), the
  level is at least 1 and at most 50, and a larger XP never gives a smaller level.
\<close>

theorem level_from_xp_mono_capped:
  assumes "0 \<le> a" and "a \<le> b"
  shows "\<exists>la lb. level_from_xp a = Inr la \<and> level_from_xp b = Inr lb
           \<and> la \<le> lb \<and> 1 \<le> la \<and> lb \<le> 50"
proof -
  have "sqrt (real_of_int a) \<le> sqrt (real_of_int b)"
    using assms by simp
  then have "\<lfloor>0.4 * sqrt (real_of_int a)\<rfloor> \<le> \<lfloor>0.4 * sqrt (real_of_int b)\<rfloor>"
    by (intro floor_mono) simp
  moreover have "0 \<le> \<lfloor>0.4 * sqrt (real_of_int a)\<rfloor>"
    using assms by simp
  ultimately show ?thesis
    using assms by (simp add: level_from_xp_def py_int_nonneg)
qed

theorem level_from_xp_mono_capped_witness:
  "(0::int) \<le> 58 \<and> (58::int) \<le> 20000
   \<and> (\<exists>la lb. level_from_xp 58 = Inr la \<and> level_from_xp 20000 = Inr lb
           \<and> la \<le> lb \<and> 1 \<le> la \<and> lb \<le> 50)
   \<and> level_from_xp 58 = Inr 4 \<and> level_from_xp 20000 = Inr 50"
  using level_from_xp_mono_capped[of 58 20000] level_from_xp_58 level_from_xp_20000
  by simp

subsection \<open>XP, streaks and the snapshot\<close>

lemma gam_step_correct_root:
  "h_is_correct r \<noteq> 0 \<Longrightarrow> h_scaffold_level r = 0 \<Longrightarrow>
   gam_step a r =
     \<lparr> acc_xp = acc_xp a + 10 +
         (if acc_streak a + 1 = 3 then 3 else if acc_streak a + 1 = 5 then 5
          else if acc_streak a + 1 = 10 then 10 else if acc_streak a + 1 = 20 then 20
          else 0),
       acc_streak = acc_streak a + 1,
       acc_best_streak = max (acc_streak a + 1) (acc_best_streak a) \<rparr>"
  by (simp add: gam_step_def Let_def max_def)

text \<open>
  \<^bold>\<open>C2.\<close> When the student's whole history is five rows, all correct and all at scaffold
  level 0, the XP gained by the first, second, ..., fifth row is 10, 10, 13, 10, 15, and the
  snapshot has XP 58, level 4, streak 5 and best streak 5.
\<close>

theorem gamification_five_correct:
  assumes rows: "history_of db student_id = [r1, r2, r3, r4, r5]"
      and ok: "\<forall>r \<in> set [r1, r2, r3, r4, r5]. h_is_correct r \<noteq> 0 \<and> h_scaffold_level r = 0"
  shows "map (\<lambda>n. acc_xp (gam_loop (take (Suc n) (history_of db student_id)))
                 - acc_xp (gam_loop (take n (history_of db student_id)))) [0, 1, 2, 3, 4]
           = [10, 10, 13, 10, 15]
       \<and> (\<exists>g. get_gamification_stats db student_id = Inr g \<and> g_xp g = 58 \<and> g_level g = 4
              \<and> g_streak g = 5 \<and> g_best_streak g = 5)"
proof -
  have total: "gam_loop [r1, r2, r3, r4, r5]
                 = \<lparr> acc_xp = 58, acc_streak = 5, acc_best_streak = 5 \<rparr>"
    using ok by (simp add: gam_loop_def gam_init_def gam_step_correct_root)
  have each: "map (\<lambda>n. acc_xp (gam_loop (take (Suc n) [r1, r2, r3, r4, r5]))
                 - acc_xp (gam_loop (take n [r1, r2, r3, r4, r5]))) [0, 1, 2, 3, 4]
           = [10, 10, 13, 10, 15]"
    using ok by (simp add: gam_loop_def gam_init_def gam_step_correct_root eval_nat_numeral)
  show ?thesis
    using each total level_from_xp_58 rows
    by (simp add: get_gamification_stats_def Let_def)
qed

theorem gamification_five_correct_witness:
  "history_of (sample_db (map (\<lambda>i. sample_row i 1 1 0) [1, 2, 3, 4, 5])) 1
     = map (\<lambda>i. sample_row i 1 1 0) [1, 2, 3, 4, 5]
   \<and> list_all (\<lambda>r. h_is_correct r \<noteq> 0 \<and> h_scaffold_level r = 0)
         (map (\<lambda>i. sample_row i 1 1 0) [1, 2, 3, 4, 5])
   \<and> (\<exists>g. get_gamification_stats (sample_db (map (\<lambda>i. sample_row i 1 1 0) [1, 2, 3, 4, 5])) 1
            = Inr g \<and> g_xp g = 58 \<and> g_level g = 4 \<and> g_streak g = 5 \<and> g_best_streak g = 5)"
proof -
  have h: "history_of (sample_db (map (\<lambda>i. sample_row i 1 1 0) [1, 2, 3, 4, 5])) 1
             = [sample_row 1 1 1 0, sample_row 2 1 1 0, sample_row 3 1 1 0,
                sample_row 4 1 1 0, sample_row 5 1 1 0]"
    by (simp add: history_of_def sample_db_def sample_row_def)
  have ok: "\<forall>r \<in> set [sample_row 1 1 1 0, sample_row 2 1 1 0, sample_row 3 1 1 0,
                sample_row 4 1 1 0, sample_row 5 1 1 0].
              h_is_correct r \<noteq> 0 \<and> h_scaffold_level r = 0"
    by (simp add: sample_row_def)
  show ?thesis
    using gamification_five_correct[OF h ok] h ok by simp
qed

text \<open>
  \<^bold>\<open>C10.\<close> For a student with no history rows the snapshot is XP 0, level 1 (``Beginner''),
  streak 0, best streak 0, XP-for-next 6 and progress 0 percent.
\<close>

theorem gamification_empty_history:
  assumes "history_of db student_id = []"
  shows "get_gamification_stats db student_id =
           Inr \<lparr> g_xp = 0, g_level = 1, g_level_title = ''Beginner'', g_xp_for_next = 6,
                 g_xp_progress_pct = 0, g_streak = 0, g_best_streak = 0 \<rparr>"
  using assms level_from_xp_0
  by (simp add: get_gamification_stats_def Let_def gam_loop_def gam_init_def level_title_def
      LEVEL_TITLES_def power2_eq_square py_int_def)

theorem gamification_empty_history_witness:
  "history_of (sample_db []) 1 = []
   \<and> get_gamification_stats (sample_db []) 1 =
           Inr \<lparr> g_xp = 0, g_level = 1, g_level_title = ''Beginner'', g_xp_for_next = 6,
                 g_xp_progress_pct = 0, g_streak = 0, g_best_streak = 0 \<rparr>"
proof -
  have h: "history_of (sample_db []) 1 = []"
    by (simp add: history_of_def sample_db_def)
  show ?thesis
    using gamification_empty_history[OF h] h by simp
qed


subsection \<open>Problem bank lookup\<close>

lemma foldr_max_ge: "i \<in> set ids \<Longrightarrow> i \<le> foldr max ids (b::int)"
  by (induction ids) auto

lemma next_rowid_fresh: "i \<in> set ids \<Longrightarrow> i < next_rowid s ids"
  using foldr_max_ge[of i ids "max s 0"] by (simp add: next_rowid_def)

lemma find_all_true: "xs \<noteq> [] \<Longrightarrow> \<forall>x\<in>set xs. P x \<Longrightarrow> find P xs = Some (hd xs)"
  by (cases xs) auto

lemma sorted_hd_le:
  "sorted (map f xs) \<Longrightarrow> x \<in> set xs \<Longrightarrow> f (hd xs) \<le> f x"
  for f :: "'a \<Rightarrow> int"
  by (cases xs) auto


lemma find_split:
  "find P xs = Some x \<Longrightarrow> \<exists>pre post. xs = pre @ x # post \<and> P x \<and> (\<forall>p\<in>set pre. \<not> P p)"
proof (induction xs)
  case Nil
  then show ?case by simp
next
  case (Cons a xs)
  show ?case
  proof (cases "P a")
    case True
    with Cons.prems have "a = x" by simp
    with True have "a # xs = [] @ x # xs \<and> P x \<and> (\<forall>p\<in>set []. \<not> P p)" by simp
    then show ?thesis by blast
  next
    case False
    with Cons.prems have "find P xs = Some x" by simp
    from Cons.IH[OF this] obtain pre post where
      "xs = pre @ x # post" "P x" "\<forall>p\<in>set pre. \<not> P p" by blast
    with False have "a # xs = (a # pre) @ x # post \<and> P x \<and> (\<forall>p\<in>set (a # pre). \<not> P p)"
      by simp
    then show ?thesis by blast
  qed
qed

lemma bank_order_set: "set (bank_order rnd rows) = set rows"
  by (simp add: bank_order_def)

lemma bank_order_sorted_key:
  "sorted (map (\<lambda>r. (b_times_served r, rnd (b_id r))) (bank_order rnd rows))"
  by (simp add: bank_order_def)

lemma sorted_pair_fst:
  "sorted (map (\<lambda>r. (f r, g r)) xs) \<Longrightarrow> sorted (map f xs)"
  for f :: "'a \<Rightarrow> int" and g :: "'a \<Rightarrow> int"
proof (induction xs)
  case Nil
  then show ?case by simp
next
  case (Cons a xs)
  then show ?case by (auto simp: less_eq_prod_def)
qed

lemma bank_order_sorted: "sorted (map b_times_served (bank_order rnd rows))"
  using bank_order_sorted_key[of rnd rows] by (rule sorted_pair_fst)

lemma sorted_split_bounds:
  "sorted (map f (pre @ x # post)) \<Longrightarrow>
     (\<forall>p\<in>set pre. f p \<le> f x) \<and> (\<forall>q\<in>set post. f x \<le> f q)"
  for f :: "'a \<Rightarrow> int"
  by (auto simp: sorted_append)

text \<open>
  \<^bold>\<open>C3.\<close> With a non-negative \<^verbatim>\<open>exclude_recent\<close>, let \<open>recent\<close> be the questions of the
  student's last \<^verbatim>\<open>exclude_recent\<close> history rows, \<open>candidates\<close> the bank rows the query
  selects and \<open>ordered\<close> these rows as the query returns them (the same rows, in ascending
  \<^verbatim>\<open>times_served\<close>). The lookup returns \<^verbatim>\<open>None\<close> only when every candidate's question
  is in \<open>recent\<close>; otherwise it returns a candidate whose question is not in \<open>recent\<close>, and
  every row before it in \<open>ordered\<close> has a question in \<open>recent\<close>.
\<close>

theorem find_reusable_problem_spec:
  assumes "0 \<le> exclude_recent"
  shows "let recent = set (map h_question
                        (take (nat exclude_recent) (rev (history_of db student_id))));
             candidates = filter (bank_matches grade style topic is_scaffold mtype)
                            (problem_bank db);
             ordered = bank_order rnd candidates
         in set ordered = set candidates \<and> sorted (map b_times_served ordered) \<and>
            (case find_reusable_problem rnd db grade style topic student_id
                    is_scaffold mtype exclude_recent of
               None \<Rightarrow> (\<forall>r\<in>set candidates. b_question r \<in> recent)
             | Some r \<Rightarrow>
                 b_question r \<notin> recent \<and> r \<in> set candidates \<and>
                 (\<exists>pre post. ordered = pre @ r # post
                    \<and> (\<forall>p\<in>set pre. b_question p \<in> recent
                                        \<and> b_times_served p \<le> b_times_served r)
                    \<and> (\<forall>q\<in>set post. b_times_served r \<le> b_times_served q)))"
proof -
  let ?recent = "set (map h_question
                        (take (nat exclude_recent) (rev (history_of db student_id))))"
  let ?candidates = "filter (bank_matches grade style topic is_scaffold mtype)
                            (problem_bank db)"
  let ?ordered = "bank_order rnd ?candidates"
  have seen: "seen_questions db student_id exclude_recent = ?recent"
    using assms by (simp add: seen_questions_def sql_limit_def)
  have f: "find_reusable_problem rnd db grade style topic student_id is_scaffold mtype
             exclude_recent = find (\<lambda>r. b_question r \<notin> ?recent) ?ordered"
    unfolding find_reusable_problem_def Let_def seen ..
  have s: "set ?ordered = set ?candidates"
    by (rule bank_order_set)
  have so: "sorted (map b_times_served ?ordered)"
    by (rule bank_order_sorted)
  have res: "case find (\<lambda>r. b_question r \<notin> ?recent) ?ordered of
               None \<Rightarrow> (\<forall>r\<in>set ?candidates. b_question r \<in> ?recent)
             | Some r \<Rightarrow>
                 b_question r \<notin> ?recent \<and> r \<in> set ?candidates \<and>
                 (\<exists>pre post. ?ordered = pre @ r # post
                    \<and> (\<forall>p\<in>set pre. b_question p \<in> ?recent
                                        \<and> b_times_served p \<le> b_times_served r)
                    \<and> (\<forall>q\<in>set post. b_times_served r \<le> b_times_served q))"
  proof (cases "find (\<lambda>r. b_question r \<notin> ?recent) ?ordered")
    case None
    then have "\<forall>r\<in>set ?ordered. b_question r \<in> ?recent"
      unfolding find_None_iff by blast
    then have "\<forall>r\<in>set ?candidates. b_question r \<in> ?recent"
      unfolding s .
    with None show ?thesis by (simp only: option.case)
  next
    case (Some r)
    from find_split[OF Some] obtain pre post where
      sp: "?ordered = pre @ r # post" and pr: "b_question r \<notin> ?recent"
      and pp: "\<forall>p\<in>set pre. \<not> b_question p \<notin> ?recent" by blast
    from so have b: "(\<forall>p\<in>set pre. b_times_served p \<le> b_times_served r)
                       \<and> (\<forall>q\<in>set post. b_times_served r \<le> b_times_served q)"
      unfolding sp by (rule sorted_split_bounds)
    have "r \<in> set ?ordered" unfolding sp by simp
    then have mem: "r \<in> set ?candidates" unfolding s .
    have ex: "\<exists>pre post. ?ordered = pre @ r # post
                    \<and> (\<forall>p\<in>set pre. b_question p \<in> ?recent
                                        \<and> b_times_served p \<le> b_times_served r)
                    \<and> (\<forall>q\<in>set post. b_times_served r \<le> b_times_served q)"
      using sp pp b by blast
    show ?thesis
      unfolding Some option.case using pr mem ex by (intro conjI)
  qed
  show ?thesis
    unfolding Let_def f using s so res by (intro conjI)
qed

theorem find_reusable_problem_spec_witness:
  "(0::int) \<le> 20
   \<and> find_reusable_problem (\<lambda>i. - i)
        (sample_bank_db [sample_row 1 1 1 0]
           [sample_bank_row 1 ''2+2'' 0, sample_bank_row 2 ''2+3'' 1, sample_bank_row 3 ''3+3'' 1])
        4 ''common_core'' ''Addition'' 1 False None 20 = Some (sample_bank_row 3 ''3+3'' 1)
   \<and> b_question (sample_bank_row 3 ''3+3'' 1)
        \<notin> set (map h_question (take (nat 20) (rev (history_of
              (sample_bank_db [sample_row 1 1 1 0]
           [sample_bank_row 1 ''2+2'' 0, sample_bank_row 2 ''2+3'' 1, sample_bank_row 3 ''3+3'' 1]) 1))))"
proof -
  have e: "find_reusable_problem (\<lambda>i. - i)
        (sample_bank_db [sample_row 1 1 1 0]
           [sample_bank_row 1 ''2+2'' 0, sample_bank_row 2 ''2+3'' 1, sample_bank_row 3 ''3+3'' 1])
        4 ''common_core'' ''Addition'' 1 False None 20 = Some (sample_bank_row 3 ''3+3'' 1)"
    by (simp add: find_reusable_problem_def seen_questions_def sql_limit_def history_of_def
        sample_bank_db_def sample_row_def sample_bank_row_def bank_matches_def bank_order_def
        truthy_str_def)
  show ?thesis
    using find_reusable_problem_spec[of 20 "sample_bank_db [sample_row 1 1 1 0]
           [sample_bank_row 1 ''2+2'' 0, sample_bank_row 2 ''2+3'' 1, sample_bank_row 3 ''3+3'' 1]"
           1 4 "''common_core''" "''Addition''" False None "\<lambda>i. - i"] e
    by (simp add: Let_def)
qed


subsection \<open>Save and look up\<close>

lemma save_then_find:
  assumes sv: "save_to_problem_bank db grade style topic question answer hint is_scaffold mtype
                 = (db', bank_id)"
      and em: "seen_questions db' student_id exclude_recent = {}"
  shows "\<exists>new r.
           problem_bank db' = problem_bank db @ [new]
         \<and> b_id new = bank_id \<and> b_question new = question \<and> b_times_served new = 0
         \<and> (\<forall>old\<in>set (problem_bank db). b_id old \<noteq> bank_id)
         \<and> find_reusable_problem rnd db' grade style topic student_id is_scaffold mtype
               exclude_recent = Some r
         \<and> r \<in> set (problem_bank db')
         \<and> bank_matches grade style topic is_scaffold mtype r
         \<and> b_times_served r \<le> 0
         \<and> ((\<forall>old\<in>set (problem_bank db).
                 bank_matches grade style topic is_scaffold mtype old \<longrightarrow> 0 < b_times_served old)
              \<longrightarrow> r = new)"
proof -
  define new where
    "new = \<lparr> b_id = bank_id, b_grade = grade, b_curriculum_style = style,
             b_topic = topic, b_question = question, b_correct_answer = answer,
             b_hint = hint, b_is_scaffold = (if is_scaffold then 1 else 0),
             b_scaffold_misconception_type = mtype, b_times_served = (0::int) \<rparr>"
  have bid: "bank_id = next_rowid (bank_seq db) (map b_id (problem_bank db))"
    using sv by (simp add: save_to_problem_bank_def Let_def)
  have pb: "problem_bank db' = problem_bank db @ [new]"
    using sv by (auto simp: save_to_problem_bank_def Let_def new_def)
  have fresh: "\<forall>old\<in>set (problem_bank db). b_id old \<noteq> bank_id"
  proof
    fix old assume "old \<in> set (problem_bank db)"
    then have "b_id old \<in> set (map b_id (problem_bank db))" by simp
    from next_rowid_fresh[OF this, of "bank_seq db"] show "b_id old \<noteq> bank_id"
      unfolding bid by simp
  qed
  have mnew: "bank_matches grade style topic is_scaffold mtype new"
    by (simp add: bank_matches_def new_def truthy_str_def)
  let ?cands = "filter (bank_matches grade style topic is_scaffold mtype) (problem_bank db')"
  let ?ord = "bank_order rnd ?cands"
  have newc: "new \<in> set ?cands" using pb mnew by simp
  then have newo: "new \<in> set ?ord" by (simp add: bank_order_set)
  then have ne: "?ord \<noteq> []" by auto
  have f: "find_reusable_problem rnd db' grade style topic student_id is_scaffold mtype
             exclude_recent = Some (hd ?ord)"
    unfolding find_reusable_problem_def Let_def em
    by (rule find_all_true[OF ne]) simp
  have hdo: "hd ?ord \<in> set ?ord" using ne by simp
  then have hdc: "hd ?ord \<in> set ?cands" by (simp add: bank_order_set)
  have le: "b_times_served (hd ?ord) \<le> b_times_served new"
    by (rule sorted_hd_le[OF bank_order_sorted newo])
  have le0: "b_times_served (hd ?ord) \<le> 0" using le by (simp add: new_def)
  have only: "(\<forall>old\<in>set (problem_bank db).
                 bank_matches grade style topic is_scaffold mtype old \<longrightarrow> 0 < b_times_served old)
              \<longrightarrow> hd ?ord = new"
  proof
    assume a: "\<forall>old\<in>set (problem_bank db).
                 bank_matches grade style topic is_scaffold mtype old \<longrightarrow> 0 < b_times_served old"
    from hdc have "hd ?ord \<in> set (problem_bank db) \<or> hd ?ord = new"
      using pb by auto
    moreover have "bank_matches grade style topic is_scaffold mtype (hd ?ord)"
      using hdc by simp
    ultimately show "hd ?ord = new" using a le0 by fastforce
  qed
  have n1: "b_id new = bank_id" and n2: "b_question new = question"
    and n3: "b_times_served new = 0"
    by (simp_all add: new_def)
  have hdm: "hd ?ord \<in> set (problem_bank db')" using hdc by simp
  have hm: "bank_matches grade style topic is_scaffold mtype (hd ?ord)" using hdc by simp
  show ?thesis
    apply (rule exI[where x = new])
    apply (rule exI[where x = "hd ?ord"])
    using pb n1 n2 n3 fresh f hdm hm le0 only by (intro conjI)
qed

lemma increment_times_served_rows:
  "map (\<lambda>r. (b_id r, b_times_served r)) (problem_bank (increment_times_served db bank_id))
     = map (\<lambda>r. (b_id r, if b_id r = bank_id then b_times_served r + 1 else b_times_served r))
         (problem_bank db)"
  by (simp add: increment_times_served_def)

text \<open>
  \<^bold>\<open>C5\<close>, as stated, fails: the bank holds a matching row (id 1) that was never served;
  a new row is saved (id 2) and the student has no history; with the random numbers drawn
  for this query ordering row 1 first, the lookup returns row 1, not the row just saved.
\<close>

theorem save_then_find_other_entry:
  "(case save_to_problem_bank (sample_bank_db [] [sample_bank_row 1 ''2+3'' 0])
           4 ''common_core'' ''Addition'' ''3+3'' ''6'' ''Count on'' False None of
      (db', bank_id) \<Rightarrow>
        bank_id = 2
        \<and> seen_questions db' 1 20 = {}
        \<and> map_option b_id (find_reusable_problem (\<lambda>i. i) db' 4 ''common_core'' ''Addition'' 1
                              False None 20) = Some 1)"
  by (simp add: save_to_problem_bank_def next_rowid_def sample_bank_db_def sample_bank_row_def
      find_reusable_problem_def seen_questions_def sql_limit_def history_of_def
      bank_matches_def bank_order_def truthy_str_def Let_def)


text \<open>
  \<^bold>\<open>C5\<close>, amended. After a save, a lookup with the same criteria and an empty set of
  recently seen questions returns a row; the row matches the criteria and has
  \<^verbatim>\<open>times_served\<close> at most 0, and it is the row just saved whenever every other matching
  row has been served at least once. The row just saved has a fresh id and
  \<^verbatim>\<open>times_served\<close> 0, and \<^verbatim>\<open>increment_times_served\<close> adds exactly 1 to the counter of the
  rows with the given id and leaves the other counters as they are.
\<close>

theorem bank_round_trip:
  assumes sv: "save_to_problem_bank db grade style topic question answer hint is_scaffold mtype
                 = (db', bank_id)"
      and em: "seen_questions db' student_id exclude_recent = {}"
  shows "(\<exists>new r.
           problem_bank db' = problem_bank db @ [new]
         \<and> b_id new = bank_id \<and> b_question new = question \<and> b_times_served new = 0
         \<and> (\<forall>old\<in>set (problem_bank db). b_id old \<noteq> bank_id)
         \<and> find_reusable_problem rnd db' grade style topic student_id is_scaffold mtype
               exclude_recent = Some r
         \<and> r \<in> set (problem_bank db')
         \<and> bank_matches grade style topic is_scaffold mtype r
         \<and> b_times_served r \<le> 0
         \<and> ((\<forall>old\<in>set (problem_bank db).
                 bank_matches grade style topic is_scaffold mtype old \<longrightarrow> 0 < b_times_served old)
              \<longrightarrow> r = new))
       \<and> (\<forall>d i. map (\<lambda>r. (b_id r, b_times_served r))
                    (problem_bank (increment_times_served d i))
                 = map (\<lambda>r. (b_id r, if b_id r = i then b_times_served r + 1
                                     else b_times_served r)) (problem_bank d))"
  using save_then_find[OF sv em, of rnd] increment_times_served_rows by blast

theorem bank_round_trip_witness:
  "snd (save_to_problem_bank (sample_bank_db [] [sample_bank_row 1 ''2+3'' 1])
           4 ''common_core'' ''Addition'' ''3+3'' ''6'' ''Count on'' False None) = 2
   \<and> seen_questions (fst (save_to_problem_bank (sample_bank_db [] [sample_bank_row 1 ''2+3'' 1])
           4 ''common_core'' ''Addition'' ''3+3'' ''6'' ''Count on'' False None)) 1 20 = {}
   \<and> map_option b_id (find_reusable_problem (\<lambda>i. i)
        (fst (save_to_problem_bank (sample_bank_db [] [sample_bank_row 1 ''2+3'' 1])
           4 ''common_core'' ''Addition'' ''3+3'' ''6'' ''Count on'' False None))
        4 ''common_core'' ''Addition'' 1 False None 20) = Some 2"
proof -
  let ?s = "save_to_problem_bank (sample_bank_db [] [sample_bank_row 1 ''2+3'' 1])
           4 ''common_core'' ''Addition'' ''3+3'' ''6'' ''Count on'' False None"
  have i: "snd ?s = 2"
    by (simp add: save_to_problem_bank_def next_rowid_def sample_bank_db_def
        sample_bank_row_def Let_def)
  then have sv: "?s = (fst ?s, 2)" by (simp add: prod_eq_iff)
  have em: "seen_questions (fst ?s) 1 20 = {}"
    by (simp add: save_to_problem_bank_def seen_questions_def sql_limit_def history_of_def
        sample_bank_db_def Let_def)
  have old: "\<forall>old\<in>set (problem_bank (sample_bank_db [] [sample_bank_row 1 ''2+3'' 1])).
               bank_matches 4 ''common_core'' ''Addition'' False None old
                 \<longrightarrow> 0 < b_times_served old"
    by (simp add: sample_bank_db_def sample_bank_row_def)
  from bank_round_trip[OF sv em, of "\<lambda>i. i"] old
  have "map_option b_id (find_reusable_problem (\<lambda>i. i) (fst ?s)
          4 ''common_core'' ''Addition'' 1 False None 20) = Some 2"
    by auto
  with i em show ?thesis by simp
qed

subsection \<open>Achievements\<close>

lemma unlock_achievement_frame:
  "unlock_achievement db sid key = (db', ok) \<Longrightarrow>
     history db' = history db \<and> students db' = students db
     \<and> set (achievements db) \<subseteq> set (achievements db')
     \<and> (student_exists db sid \<longrightarrow> (sid, key) \<in> set (achievements db'))"
  by (auto simp: unlock_achievement_def split: if_splits)

lemma unlock_achievement_ok:
  "unlock_achievement db sid key = (db', True) \<Longrightarrow>
     (sid, key) \<notin> set (achievements db)
     \<and> achievements db' = achievements db @ [(sid, key)]"
  by (auto simp: unlock_achievement_def split: if_splits)

lemma unlock_achievement_not_ok:
  "unlock_achievement db sid key = (db', False) \<Longrightarrow> db' = db"
  by (auto simp: unlock_achievement_def split: if_splits)

lemma student_exists_cong:
  "students db' = students db \<Longrightarrow> student_exists db' sid = student_exists db sid"
  by (simp add: student_exists_def)

text \<open>What the loop leaves behind.\<close>

lemma unlock_loop_frame:
  "unlock_loop db sid cs newly = (db', newly') \<Longrightarrow>
     history db' = history db \<and> students db' = students db
     \<and> set (achievements db) \<subseteq> set (achievements db')
     \<and> (\<forall>k. (k, True) \<in> set cs \<and> k \<in> set (map fst ACHIEVEMENTS) \<and> student_exists db sid
            \<longrightarrow> (sid, k) \<in> set (achievements db'))"
proof (induction db sid cs newly arbitrary: db' newly' rule: unlock_loop.induct)
  case (1 db sid newly)
  then show ?case by simp
next
  case (2 db sid key condition rest newly)
  show ?case
  proof (cases "condition \<and> key \<in> set (map fst ACHIEVEMENTS)")
    case True
    obtain db1 ok where u: "unlock_achievement db sid key = (db1, ok)"
      by (cases "unlock_achievement db sid key")
    from "2.prems" True u have
      r: "unlock_loop db1 sid rest (if ok then newly @ [key] else newly) = (db', newly')"
      by simp
    from unlock_achievement_frame[OF u] have
      f1: "history db1 = history db" and f2: "students db1 = students db"
      and f3: "set (achievements db) \<subseteq> set (achievements db1)"
      and f4: "student_exists db sid \<longrightarrow> (sid, key) \<in> set (achievements db1)"
      by simp_all
    from "2.IH"(1)[OF True u[symmetric] r] have
      i1: "history db' = history db1" and i2: "students db' = students db1"
      and i3: "set (achievements db1) \<subseteq> set (achievements db')"
      and i4: "\<forall>k. (k, True) \<in> set rest \<and> k \<in> set (map fst ACHIEVEMENTS)
                   \<and> student_exists db1 sid \<longrightarrow> (sid, k) \<in> set (achievements db')"
      by simp_all
    have se: "student_exists db1 sid = student_exists db sid"
      using f2 by (rule student_exists_cong)
    have g1: "history db' = history db" using i1 f1 by simp
    have g2: "students db' = students db" using i2 f2 by simp
    have g3: "set (achievements db) \<subseteq> set (achievements db')" using i3 f3 by blast
    have g4: "\<forall>k. (k, True) \<in> set ((key, condition) # rest)
                   \<and> k \<in> set (map fst ACHIEVEMENTS) \<and> student_exists db sid
                  \<longrightarrow> (sid, k) \<in> set (achievements db')"
    proof (intro allI impI)
      fix k
      assume a: "(k, True) \<in> set ((key, condition) # rest)
                   \<and> k \<in> set (map fst ACHIEVEMENTS) \<and> student_exists db sid"
      show "(sid, k) \<in> set (achievements db')"
      proof (cases "(k, True) \<in> set rest")
        case True
        with a i4 se show ?thesis by blast
      next
        case False
        with a have "k = key" by simp
        with a f4 i3 show ?thesis by blast
      qed
    qed
    show ?thesis using g1 g2 g3 g4 by (intro conjI)
  next
    case False
    with "2.prems" have r: "unlock_loop db sid rest newly = (db', newly')" by auto
    from "2.IH"(2)[OF False r] have
      i1: "history db' = history db" and i2: "students db' = students db"
      and i3: "set (achievements db) \<subseteq> set (achievements db')"
      and i4: "\<forall>k. (k, True) \<in> set rest \<and> k \<in> set (map fst ACHIEVEMENTS)
                   \<and> student_exists db sid \<longrightarrow> (sid, k) \<in> set (achievements db')"
      by simp_all
    have g4: "\<forall>k. (k, True) \<in> set ((key, condition) # rest)
                   \<and> k \<in> set (map fst ACHIEVEMENTS) \<and> student_exists db sid
                  \<longrightarrow> (sid, k) \<in> set (achievements db')"
      using i4 False by auto
    show ?thesis using i1 i2 i3 g4 by (intro conjI)
  qed
qed

text \<open>Nothing left to unlock: the loop changes nothing and reports nothing.\<close>

lemma unlock_loop_idle:
  "\<forall>k. (k, True) \<in> set cs \<and> k \<in> set (map fst ACHIEVEMENTS) \<and> student_exists db sid
       \<longrightarrow> (sid, k) \<in> set (achievements db) \<Longrightarrow>
   unlock_loop db sid cs newly = (db, newly)"
proof (induction cs)
  case Nil
  then show ?case by simp
next
  case (Cons a cs)
  obtain k c where a: "a = (k, c)" by (cases a)
  have rest: "unlock_loop db sid cs newly = (db, newly)"
    by (rule Cons.IH) (use Cons.prems in simp)
  show ?case
  proof (cases "c \<and> k \<in> set (map fst ACHIEVEMENTS)")
    case True
    then have "\<not> student_exists db sid \<or> (sid, k) \<in> set (achievements db)"
      using Cons.prems a by auto
    then have "unlock_achievement db sid k = (db, False)"
      by (auto simp: unlock_achievement_def)
    then show ?thesis using a True rest by simp
  next
    case False
    then show ?thesis using a rest by auto
  qed
qed

text \<open>The keys reported are new ones, each reported once.\<close>

lemma unlock_loop_newly:
  "unlock_loop db sid cs newly = (db', newly') \<Longrightarrow>
     \<exists>added. newly' = newly @ added \<and> distinct added
       \<and> (\<forall>k\<in>set added. (sid, k) \<notin> set (achievements db) \<and> (sid, k) \<in> set (achievements db'))
       \<and> achievements db' = achievements db @ map (\<lambda>k. (sid, k)) added"
proof (induction db sid cs newly arbitrary: db' newly' rule: unlock_loop.induct)
  case (1 db sid newly)
  then show ?case by simp
next
  case (2 db sid key condition rest newly)
  show ?case
  proof (cases "condition \<and> key \<in> set (map fst ACHIEVEMENTS)")
    case True
    obtain db1 ok where u: "unlock_achievement db sid key = (db1, ok)"
      by (cases "unlock_achievement db sid key")
    from "2.prems" True u have
      r: "unlock_loop db1 sid rest (if ok then newly @ [key] else newly) = (db', newly')"
      by simp
    from "2.IH"(1)[OF True u[symmetric] r] obtain added where
      ih: "newly' = (if ok then newly @ [key] else newly) @ added" "distinct added"
        "\<forall>k\<in>set added. (sid, k) \<notin> set (achievements db1) \<and> (sid, k) \<in> set (achievements db')"
        "achievements db' = achievements db1 @ map (\<lambda>k. (sid, k)) added"
      by blast
    show ?thesis
    proof (cases ok)
      case True
      with u have "unlock_achievement db sid key = (db1, True)" by simp
      from unlock_achievement_ok[OF this]
      have a1: "achievements db1 = achievements db @ [(sid, key)]"
        and nk: "(sid, key) \<notin> set (achievements db)" by simp_all
      have "key \<notin> set added" using ih(3) a1 by auto
      then have "newly' = newly @ (key # added) \<and> distinct (key # added)
       \<and> (\<forall>k\<in>set (key # added). (sid, k) \<notin> set (achievements db) \<and> (sid, k) \<in> set (achievements db'))
       \<and> achievements db' = achievements db @ map (\<lambda>k. (sid, k)) (key # added)"
        using ih True a1 nk by auto
      then show ?thesis by blast
    next
      case False
      with u have "unlock_achievement db sid key = (db1, False)" by simp
      from unlock_achievement_not_ok[OF this] have "db1 = db" .
      with ih False show ?thesis by auto
    qed
  next
    case False
    with "2.prems" have r: "unlock_loop db sid rest newly = (db', newly')" by auto
    from "2.IH"(2)[OF False r] show ?thesis .
  qed
qed

lemma history_of_cong: "history db' = history db \<Longrightarrow> history_of db' sid = history_of db sid"
  by (simp add: history_of_def)

lemma get_gamification_stats_cong:
  "history db' = history db \<Longrightarrow> get_gamification_stats db' sid = get_gamification_stats db sid"
  by (simp add: get_gamification_stats_def history_of_def)

lemma achievement_checks_cong:
  "history db' = history db \<Longrightarrow> achievement_checks db' sid st = achievement_checks db sid st"
  by (simp add: achievement_checks_def)

lemma gam_loop_xp_nonneg_aux:
  "0 \<le> acc_xp a \<Longrightarrow> 0 \<le> acc_xp (foldl gam_step a rows)"
proof (induction rows arbitrary: a)
  case Nil
  then show ?case by simp
next
  case (Cons r rows)
  have "0 \<le> acc_xp (gam_step a r)"
    using Cons.prems by (simp add: gam_step_def Let_def)
  from Cons.IH[OF this] show ?case by simp
qed

lemma gam_loop_xp_nonneg: "0 \<le> acc_xp (gam_loop rows)"
  unfolding gam_loop_def by (rule gam_loop_xp_nonneg_aux) (simp add: gam_init_def)

lemma get_gamification_stats_total: "\<exists>g. get_gamification_stats db sid = Inr g"
  using gam_loop_xp_nonneg[of "history_of db sid"]
  by (simp add: get_gamification_stats_def Let_def level_from_xp_def)

text \<open>\<^bold>\<open>C7.\<close> Checking achievements always succeeds, and a second check right after the
  first one, with no new history in between, reports no key at all and leaves the database as
  it is: no key is reported twice. The keys of the first check are pairwise different, none of
  them was unlocked before, and they are exactly the rows added to the achievements table, which
  stays free of duplicates.\<close>

theorem check_achievements_twice:
  "\<exists>db1 new1.
      check_achievements db student_id = Inr (db1, new1)
    \<and> check_achievements db1 student_id = Inr (db1, [])
    \<and> distinct new1
    \<and> (\<forall>k\<in>set new1. (student_id, k) \<notin> set (achievements db))
    \<and> achievements db1 = achievements db @ map (\<lambda>k. (student_id, k)) new1
    \<and> (distinct (achievements db) \<longrightarrow> distinct (achievements db1))"
proof -
  obtain g where g: "get_gamification_stats db student_id = Inr g"
    using get_gamification_stats_total by blast
  let ?cs = "achievement_checks db student_id g"
  obtain db1 new1 where l: "unlock_loop db student_id ?cs [] = (db1, new1)"
    by (cases "unlock_loop db student_id ?cs []")
  have c1: "check_achievements db student_id = Inr (db1, new1)"
    using g l by (simp add: check_achievements_def)
  note fr = unlock_loop_frame[OF l]
  from unlock_loop_newly[OF l] have nw: "distinct new1"
    "\<forall>k\<in>set new1. (student_id, k) \<notin> set (achievements db)"
    "achievements db1 = achievements db @ map (\<lambda>k. (student_id, k)) new1"
    by auto
  have h: "history db1 = history db" using fr by (rule conjunct1)
  have g1: "get_gamification_stats db1 student_id = Inr g"
    using g get_gamification_stats_cong[OF h] by simp
  have cs1: "achievement_checks db1 student_id g = ?cs"
    by (rule achievement_checks_cong[OF h])
  have st: "students db1 = students db" using fr by simp
  have se: "student_exists db1 student_id = student_exists db student_id"
    using st by (rule student_exists_cong)
  have all: "\<forall>k. (k, True) \<in> set ?cs \<and> k \<in> set (map fst ACHIEVEMENTS)
                 \<and> student_exists db student_id
                \<longrightarrow> (student_id, k) \<in> set (achievements db1)"
    using fr by (elim conjE)
  have idle: "unlock_loop db1 student_id ?cs [] = (db1, [])"
    by (rule unlock_loop_idle) (use all se in simp)
  have c2: "check_achievements db1 student_id = Inr (db1, [])"
    using g1 cs1 idle by (simp add: check_achievements_def)
  have d: "distinct (achievements db) \<longrightarrow> distinct (achievements db1)"
    using nw by (auto simp: distinct_map inj_on_def)
  show ?thesis
    apply (rule exI[where x = db1])
    apply (rule exI[where x = new1])
    using c1 c2 nw d by (intro conjI)
qed

theorem check_achievements_twice_witness:
  "check_achievements (sample_db [sample_row 1 1 1 0]) 1
     = Inr ((sample_db [sample_row 1 1 1 0])\<lparr> achievements := [(1, ''first_correct'')] \<rparr>,
            [''first_correct''])
   \<and> check_achievements
        ((sample_db [sample_row 1 1 1 0])\<lparr> achievements := [(1, ''first_correct'')] \<rparr>) 1
     = Inr ((sample_db [sample_row 1 1 1 0])\<lparr> achievements := [(1, ''first_correct'')] \<rparr>, [])"
proof -
  have l: "level_from_xp 10 = Inr 2"
    using level_from_xp_eq[of 10 1] by simp
  have g: "get_gamification_stats (sample_db [sample_row 1 1 1 0]) 1
            = Inr \<lparr> g_xp = 10, g_level = 2, g_level_title = ''Learner'', g_xp_for_next = 25,
                 g_xp_progress_pct = 20, g_streak = 1, g_best_streak = 1 \<rparr>"
    using l
    by (simp add: get_gamification_stats_def Let_def gam_loop_def gam_init_def gam_step_def
        history_of_def sample_db_def sample_row_def level_title_def LEVEL_TITLES_def
        power2_eq_square py_int_def)
  have c: "check_achievements (sample_db [sample_row 1 1 1 0]) 1
     = Inr ((sample_db [sample_row 1 1 1 0])\<lparr> achievements := [(1, ''first_correct'')] \<rparr>,
            [''first_correct''])"
    using g
    by (simp add: check_achievements_def achievement_checks_def Let_def unlock_achievement_def
        student_exists_def ACHIEVEMENTS_def sample_db_def sample_row_def sample_student_def)
  show ?thesis
    using check_achievements_twice[of "sample_db [sample_row 1 1 1 0]" 1] c by auto
qed

end
